theory Spec2Isabelle
  imports Complex_Main
begin

unbundle bit_operations_syntax

section \<open>Conventions of the embedding\<close>

text \<open>
  The trading pipeline is embedded function by function. Python floats are modelled as
  exact reals; the not-a-number value, which the strategy code produces on purpose and
  tests with \<open>np.isnan\<close>, is modelled as \<open>None\<close> of \<open>real option\<close>. Python strings are
  modelled by their UTF-8 bytes, so \<open>string\<close> is what \<open>payload.encode("utf-8")\<close> hashes.
  A dictionary read with \<open>.get(key, default)\<close> is a record of optional fields or an
  association list; exceptions are values of \<open>py_error\<close>.
\<close>

datatype py_error = ValueError | KeyError | TypeError | ZeroDivisionError
  | IntegrityError | MultipleResultsFound | VenueError string

definition get_or :: "'a option \<Rightarrow> 'a \<Rightarrow> 'a" where
  \<comment> \<open>\<open>d.get(key, default)\<close> for a key whose presence is the option\<close>
  "get_or v dflt = (case v of None \<Rightarrow> dflt | Some x \<Rightarrow> x)"

definition truthy :: "real option \<Rightarrow> bool" where
  \<comment> \<open>Python truthiness of an optional number: \<open>None\<close> and \<open>0\<close> are false\<close>
  "truthy v = (case v of None \<Rightarrow> False | Some x \<Rightarrow> x \<noteq> 0)"

datatype log_level = Info | Warning | Error | Critical

type_synonym log_entry = "log_level \<times> string"

section \<open>Risk arithmetic: \<open>utils/risk.py\<close>\<close>

record PortfolioState =
  equity :: real
  open_risk :: real
  cumulative_drawdown :: real
  daily_loss :: real
  volatility_scalar :: real

record volatility_targeting_cfg =
  enabled :: "bool option"
  target_portfolio_vol :: "real option"

record circuit_breakers_cfg =
  cb_daily_loss :: "real option"
  cb_total_drawdown :: "real option"

record risk_settings =
  max_risk_per_trade :: "real option"
  max_portfolio_heat :: "real option"
  max_leverage :: "real option"
  volatility_targeting :: "volatility_targeting_cfg option"
  circuit_breakers :: "circuit_breakers_cfg option"




definition apply_circuit_breakers :: "PortfolioState \<Rightarrow> risk_settings \<Rightarrow> bool \<times> log_entry list" where
  \<comment> \<open>the halt flag and what the function logs\<close>
  "apply_circuit_breakers state config =
     (let dl = (case circuit_breakers config of None \<Rightarrow> 1 | Some b \<Rightarrow> get_or (cb_daily_loss b) 1);
          dd = (case circuit_breakers config of None \<Rightarrow> 1 | Some b \<Rightarrow> get_or (cb_total_drawdown b) 1)
      in if daily_loss state \<le> - dl * equity state
           then (True, [(Error, ''circuit_breaker.daily_loss'')])
         else if cumulative_drawdown state \<le> - dd * equity state
           then (True, [(Error, ''circuit_breaker.drawdown'')])
         else let max_heat = get_or (max_portfolio_heat config) (6 / 100) * equity state
           in if open_risk state > max_heat
                then (True, [(Error, ''circuit_breaker.portfolio_heat'')])
              else (False, []))"

section \<open>Persisted positions: \<open>models/position.py\<close>\<close>

record Position =
  symbol :: string
  exchange :: string
  strategy :: string
  quantity :: real
  entry_price :: real
  stop_price :: real
  take_profit_price :: "real option"
  reduce_only_stop_installed :: bool
  opened_at :: int
  closed_at :: "int option"

section \<open>RiskService: \<open>services/risk_service.py\<close>\<close>

fun calculate_open_risk_loop :: "real \<Rightarrow> Position list \<Rightarrow> real" where
  "calculate_open_risk_loop acc [] = acc"
| "calculate_open_risk_loop acc (pos # rest) =
     (let stop_distance = \<bar>entry_price pos - stop_price pos\<bar>
      in calculate_open_risk_loop (acc + stop_distance * \<bar>quantity pos\<bar>) rest)"

definition calculate_open_risk :: "Position list \<Rightarrow> real" where
  \<comment> \<open>\<open>session.query(Position).all()\<close> is the whole table, in table order\<close>
  "calculate_open_risk positions = calculate_open_risk_loop 0 positions"

definition position_risk :: "Position \<Rightarrow> real" where
  "position_risk pos = \<bar>entry_price pos - stop_price pos\<bar> * \<bar>quantity pos\<bar>"

definition is_open :: "Position \<Rightarrow> bool" where
  "is_open pos = (closed_at pos = None)"

definition spec_open_risk :: "Position list \<Rightarrow> real" where
  \<comment> \<open>the specification's wording: the sum over the rows whose \<open>closed_at\<close> is null\<close>
  "spec_open_risk positions = sum_list (map position_risk (filter is_open positions))"

record signal_payload =
  sig_strategy :: "string option"
  sig_exchange :: "string option"
  sig_symbol :: "string option"
  sig_decision :: "string option"
  sig_confidence :: "real option"
  sig_price :: "real option"
  sig_risk :: "(string \<times> real) list option"
  sig_risk_approved :: "bool option"

record risk_service =
  rs_positions :: "Position list"
  rs_equity :: real
  rs_published :: "signal_payload list"
  rs_log :: "log_entry list"

definition rs_warn :: "string \<Rightarrow> risk_service \<Rightarrow> risk_service" where
  "rs_warn msg s = s\<lparr>rs_log := rs_log s @ [(Warning, msg)]\<rparr>"

definition risk_handle_signal ::
  "risk_settings \<Rightarrow> signal_payload \<Rightarrow> risk_service \<Rightarrow> py_error + risk_service" where
  "risk_handle_signal settings payload s =
     (let risk_payload = get_or (sig_risk payload) [] in
      if risk_payload = [] then Inr (rs_warn ''risk_service.missing_risk_payload'' s)
      else
        let stop_distance = map_of risk_payload ''stop_distance'';
            position_size = map_of risk_payload ''position_size'' in
        if \<not> truthy stop_distance \<or> \<not> truthy position_size
          then Inr (rs_warn ''risk_service.incomplete_risk_payload'' s)
        else
          let open_risk0 = calculate_open_risk (rs_positions s);
              eq = rs_equity s;
              state = \<lparr>equity = eq,
                       open_risk = open_risk0 + the stop_distance * the position_size,
                       cumulative_drawdown = 0, daily_loss = 0, volatility_scalar = 1\<rparr>;
              (halt, logged) = apply_circuit_breakers state settings in
          if halt
            then Inr (s\<lparr>rs_log := rs_log s @ logged
                        @ [(Error, ''risk_service.signal_rejected_circuit_breaker'')]\<rparr>)
          else
            let leverage_limit = get_or (max_leverage settings) 1;
                notional = the position_size in
            if eq = 0 then Inl ZeroDivisionError
            else if notional / eq > leverage_limit
              then Inr (rs_warn ''risk_service.signal_rejected_leverage'' s)
            else Inr (s\<lparr>rs_published := rs_published s @ [payload\<lparr>sig_risk_approved := Some True\<rparr>],
                          rs_log := rs_log s @ [(Info, ''risk_service.signal_approved'')]\<rparr>))"

section \<open>StrategyService: \<open>services/strategy_service.py\<close>\<close>














section \<open>Client order ids: \<open>utils/order_ids.py\<close>\<close>

text \<open>
  \<open>make_client_order_id\<close> hashes a formatted payload with \<open>hashlib.blake2b\<close> at digest size
  12. The hash is the BLAKE2b of RFC 7693, unkeyed, on 64-bit words held as integers with
  the wrap-around written out.
\<close>

type_synonym u64 = int

definition add64 :: "u64 \<Rightarrow> u64 \<Rightarrow> u64" where
  "add64 a b = (a + b) mod 2 ^ 64"

definition rotr64 :: "nat \<Rightarrow> u64 \<Rightarrow> u64" where
  "rotr64 n x = x div 2 ^ n + (x mod 2 ^ n) * 2 ^ (64 - n)"

definition blake2b_iv :: "u64 list" where
  "blake2b_iv = [0x6a09e667f3bcc908, 0xbb67ae8584caa73b, 0x3c6ef372fe94f82b, 0xa54ff53a5f1d36f1,
                 0x510e527fade682d1, 0x9b05688c2b3e6c1f, 0x1f83d9abfb41bd6b, 0x5be0cd19137e2179]"

definition blake2b_sigma :: "nat list list" where
  "blake2b_sigma =
    [[0, 1, 2, 3, 4, 5, 6, 7, 8, 9, 10, 11, 12, 13, 14, 15],
     [14, 10, 4, 8, 9, 15, 13, 6, 1, 12, 0, 2, 11, 7, 5, 3],
     [11, 8, 12, 0, 5, 2, 15, 13, 10, 14, 3, 6, 7, 1, 9, 4],
     [7, 9, 3, 1, 13, 12, 11, 14, 2, 6, 5, 10, 4, 0, 15, 8],
     [9, 0, 5, 7, 2, 4, 10, 15, 14, 1, 11, 12, 6, 8, 3, 13],
     [2, 12, 6, 10, 0, 11, 8, 3, 4, 13, 7, 5, 15, 14, 1, 9],
     [12, 5, 1, 15, 14, 13, 4, 10, 0, 7, 6, 3, 9, 2, 8, 11],
     [13, 11, 7, 14, 12, 1, 3, 9, 5, 0, 15, 4, 8, 6, 2, 10],
     [6, 15, 14, 9, 11, 3, 0, 8, 12, 2, 13, 7, 1, 4, 10, 5],
     [10, 2, 8, 4, 7, 6, 1, 5, 15, 11, 9, 14, 3, 12, 13, 0]]"

definition mix_G :: "u64 list \<Rightarrow> nat \<Rightarrow> nat \<Rightarrow> nat \<Rightarrow> nat \<Rightarrow> u64 \<Rightarrow> u64 \<Rightarrow> u64 list" where
  "mix_G v a b c d x y =
    (let va = add64 (add64 (v ! a) (v ! b)) x;
         vd = rotr64 32 (v ! d XOR va);
         vc = add64 (v ! c) vd;
         vb = rotr64 24 (v ! b XOR vc);
         va' = add64 (add64 va vb) y;
         vd' = rotr64 16 (vd XOR va');
         vc' = add64 vc vd';
         vb' = rotr64 63 (vb XOR vc')
     in v[a := va', b := vb', c := vc', d := vd'])"

definition blake2b_round :: "u64 list \<Rightarrow> nat \<Rightarrow> u64 list \<Rightarrow> u64 list" where
  "blake2b_round m r v =
    (let s = blake2b_sigma ! (r mod 10);
         v = mix_G v 0 4 8 12 (m ! (s ! 0)) (m ! (s ! 1));
         v = mix_G v 1 5 9 13 (m ! (s ! 2)) (m ! (s ! 3));
         v = mix_G v 2 6 10 14 (m ! (s ! 4)) (m ! (s ! 5));
         v = mix_G v 3 7 11 15 (m ! (s ! 6)) (m ! (s ! 7));
         v = mix_G v 0 5 10 15 (m ! (s ! 8)) (m ! (s ! 9));
         v = mix_G v 1 6 11 12 (m ! (s ! 10)) (m ! (s ! 11));
         v = mix_G v 2 7 8 13 (m ! (s ! 12)) (m ! (s ! 13));
         v = mix_G v 3 4 9 14 (m ! (s ! 14)) (m ! (s ! 15))
     in v)"

definition blake2b_init_v :: "u64 list \<Rightarrow> int \<Rightarrow> bool \<Rightarrow> u64 list" where
  \<comment> \<open>the work vector: state, then IV with the byte counter and the final-block flag mixed in\<close>
  "blake2b_init_v h t final =
    (let v = h @ blake2b_iv;
         v = v[12 := v ! 12 XOR (t mod 2 ^ 64)];
         v = v[13 := v ! 13 XOR ((t div 2 ^ 64) mod 2 ^ 64)];
         v = (if final then v[14 := v ! 14 XOR (2 ^ 64 - 1)] else v)
     in v)"

definition blake2b_compress :: "u64 list \<Rightarrow> u64 list \<Rightarrow> int \<Rightarrow> bool \<Rightarrow> u64 list" where
  "blake2b_compress h m t final =
    (let v = fold (blake2b_round m) [0..<12] (blake2b_init_v h t final)
     in map (\<lambda>i. h ! i XOR v ! i XOR v ! (i + 8)) [0..<8])"

fun le_word :: "char list \<Rightarrow> u64" where
  "le_word [] = 0"
| "le_word (c # cs) = of_char c + 256 * le_word cs"

fun block_words :: "nat \<Rightarrow> char list \<Rightarrow> u64 list" where
  \<comment> \<open>the next \<open>n\<close> little-endian words of a block; a short block reads as zero-padded\<close>
  "block_words 0 bs = []"
| "block_words (Suc n) bs = le_word (take 8 bs) # block_words n (drop 8 bs)"

function blake2b_blocks :: "u64 list \<Rightarrow> int \<Rightarrow> char list \<Rightarrow> u64 list" where
  "blake2b_blocks h t bs =
    (if length bs > 128
     then blake2b_blocks (blake2b_compress h (block_words 16 (take 128 bs)) (t + 128) False)
            (t + 128) (drop 128 bs)
     else blake2b_compress h (block_words 16 bs) (t + int (length bs)) True)"
  by pat_completeness auto
termination
  by (relation "measure (\<lambda>(h, t, bs). length bs)") auto

declare blake2b_blocks.simps [simp del]

fun le_bytes :: "nat \<Rightarrow> u64 \<Rightarrow> nat list" where
  "le_bytes 0 w = []"
| "le_bytes (Suc n) w = nat (w mod 256) # le_bytes n (w div 256)"

definition blake2b :: "nat \<Rightarrow> char list \<Rightarrow> nat list" where
  \<comment> \<open>\<open>hashlib.blake2b(data, digest_size=nn).digest()\<close> as a list of byte values\<close>
  "blake2b nn data =
    (let h = blake2b_iv[0 := blake2b_iv ! 0 XOR 0x01010000 XOR int nn]
     in take nn (concat (map (le_bytes 8) (blake2b_blocks h 0 data))))"

definition hex_alphabet :: string where
  "hex_alphabet = ''0123456789abcdef''"

definition hex_digit :: "nat \<Rightarrow> char" where
  "hex_digit n = hex_alphabet ! n"

definition hexdigest :: "nat list \<Rightarrow> string" where
  "hexdigest bs = concat (map (\<lambda>b. [hex_digit (b div 16), hex_digit (b mod 16)]) bs)"

function str_nat :: "nat \<Rightarrow> string" where
  "str_nat n = (if n < 10 then [''0123456789'' ! n]
                else str_nat (n div 10) @ [''0123456789'' ! (n mod 10)])"
  by pat_completeness auto
termination
  by (relation "measure id") auto

declare str_nat.simps [simp del]

definition str_int :: "int \<Rightarrow> string" where
  \<comment> \<open>Python's decimal rendering of an integer inside an f-string\<close>
  "str_int i = (if i < 0 then CHR ''-'' # str_nat (nat (- i)) else str_nat (nat i))"

definition make_client_order_id ::
  "int \<Rightarrow> string \<Rightarrow> string \<Rightarrow> string \<Rightarrow> int option \<Rightarrow> int \<Rightarrow> string" where
  \<comment> \<open>the first argument is what \<open>time.time_ns()\<close> returns at the moment of the call\<close>
  "make_client_order_id time_ns strat symb side timestamp_ns nonce =
     (let ts = (case timestamp_ns of Some t \<Rightarrow> t | None \<Rightarrow> time_ns);
          payload = strat @ '':'' @ symb @ '':'' @ side @ '':'' @ str_int ts @ '':'' @ str_int nonce
      in hexdigest (blake2b 12 payload))"

section \<open>Orders: \<open>models/order.py\<close>\<close>

datatype OrderSide = BUY | SELL

datatype OrderType = MARKET | LIMIT | STOP_MARKET | STOP_LIMIT | TAKE_PROFIT

datatype OrderStatus = NEW | PENDING | PARTIALLY_FILLED | FILLED | CANCELED | REJECTED

definition side_value :: "OrderSide \<Rightarrow> string" where
  "side_value sd = (case sd of BUY \<Rightarrow> ''buy'' | SELL \<Rightarrow> ''sell'')"

type_synonym json = "(string \<times> string) list"

record request_params =
  clientOrderId :: string
  reduceOnly :: "bool option"
  stopPrice :: "real option"

record order_request =
  req_symbol :: "string option"
  req_type :: OrderType
  req_side :: OrderSide
  req_amount :: real
  req_price :: "real option"
  req_params :: request_params

record Order =
  client_order_id :: string
  external_order_id :: "string option"
  ord_strategy :: string
  ord_symbol :: string
  ord_exchange :: string
  ord_side :: OrderSide
  ord_type :: OrderType
  status :: OrderStatus
  ord_quantity :: real
  filled_quantity :: real
  ord_price :: "real option"
  ord_stop_price :: "real option"
  reduce_only :: bool
  time_in_force :: "string option"
  raw_request :: order_request
  raw_response :: json

section \<open>ExecutionService: \<open>services/execution_service.py\<close>\<close>

text \<open>
  The service's surroundings are explicit. The environment gives the successive readings
  of the clock and the venue's answer to each \<open>create_order\<close> call (a response or a raised
  error); the state holds the two database tables, the requests the venue clients have
  received, the log, and how many clock readings were taken. Every function returns the
  exception that escapes it, if any, together with the state it leaves behind.
\<close>

record exec_env =
  clock :: "nat \<Rightarrow> int"
  venue_create_order :: "nat \<Rightarrow> string \<Rightarrow> order_request \<Rightarrow> string + json"

record exec_settings =
  dry_run :: bool
  clients :: "string list"

record exec_state =
  orders :: "Order list"
  positions :: "Position list"
  venue_calls :: "(string \<times> order_request) list"
  ex_log :: "log_entry list"
  clock_reads :: nat

definition ex_logged :: "log_level \<Rightarrow> string \<Rightarrow> exec_state \<Rightarrow> exec_state" where
  "ex_logged lvl msg s = s\<lparr>ex_log := ex_log s @ [(lvl, msg)]\<rparr>"

definition py_str :: "string option \<Rightarrow> string" where
  \<comment> \<open>how an f-string renders an optional string\<close>
  "py_str v = (case v of None \<Rightarrow> ''None'' | Some x \<Rightarrow> x)"

definition record_order ::
  "string \<Rightarrow> string \<Rightarrow> string option \<Rightarrow> string option \<Rightarrow> OrderSide \<Rightarrow> OrderType \<Rightarrow> real option
     \<Rightarrow> real \<Rightarrow> order_request \<Rightarrow> json \<Rightarrow> OrderStatus \<Rightarrow> exec_state \<Rightarrow> py_error option \<times> exec_state" where
  \<comment> \<open>the insert fails, and the session rolls back, on a null strategy or symbol and on a
      \<open>client_order_id\<close> already in the table\<close>
  "record_order cid exch strat symb side otype price qty raw_req raw_resp st s =
     (case (strat, symb) of
        (Some strat', Some symb') \<Rightarrow>
          if cid \<in> set (map client_order_id (orders s)) then (Some IntegrityError, s)
          else (None, s\<lparr>orders := orders s @
                 [\<lparr>client_order_id = cid, external_order_id = None, ord_strategy = strat',
                   ord_symbol = symb', ord_exchange = exch, ord_side = side, ord_type = otype,
                   status = st, ord_quantity = qty, filled_quantity = 0, ord_price = price,
                   ord_stop_price = None, reduce_only = True, time_in_force = None,
                   raw_request = raw_req, raw_response = raw_resp\<rparr>]\<rparr>)
      | _ \<Rightarrow> (Some IntegrityError, s))"

definition same_key :: "string \<Rightarrow> string \<Rightarrow> string \<Rightarrow> Position \<Rightarrow> bool" where
  "same_key symb exch strat p = (symbol p = symb \<and> exchange p = exch \<and> strategy p = strat)"

definition update_position ::
  "exec_env \<Rightarrow> string option \<Rightarrow> string \<Rightarrow> string option \<Rightarrow> real \<Rightarrow> real \<Rightarrow> real
     \<Rightarrow> exec_state \<Rightarrow> py_error option \<times> exec_state" where
  "update_position env symb exch strat qty entry stop s =
     (case (symb, strat) of
        (Some symb', Some strat') \<Rightarrow>
          (case filter (same_key symb' exch strat') (positions s) of
             [] \<Rightarrow>
               (None, s\<lparr>positions := positions s @
                  [\<lparr>symbol = symb', exchange = exch, strategy = strat', quantity = qty,
                    entry_price = entry, stop_price = stop, take_profit_price = None,
                    reduce_only_stop_installed = True, opened_at = clock env (clock_reads s),
                    closed_at = None\<rparr>],
                  clock_reads := Suc (clock_reads s)\<rparr>)
           | [_] \<Rightarrow>
               (None, s\<lparr>positions := map (\<lambda>p. if same_key symb' exch strat' p
                    then p\<lparr>quantity := quantity p + qty, entry_price := entry,
                           stop_price := stop, reduce_only_stop_installed := True\<rparr>
                    else p) (positions s)\<rparr>)
           | _ \<Rightarrow> (Some MultipleResultsFound, s))
      | _ \<Rightarrow> (Some IntegrityError, s))"

definition install_stop ::
  "exec_env \<Rightarrow> exec_settings \<Rightarrow> string option \<Rightarrow> string \<Rightarrow> string option \<Rightarrow> OrderSide
     \<Rightarrow> real option \<Rightarrow> real \<Rightarrow> real \<Rightarrow> exec_state \<Rightarrow> py_error option \<times> exec_state" where
  "install_stop env cfg strat exch symb side entry_px stop_distance position_size s =
     (let stop_side = (if side = BUY then SELL else BUY) in
      (case entry_px of
         None \<Rightarrow> (Some TypeError, s)
       | Some entry \<Rightarrow>
          (let stop_px = (if side = BUY then entry - stop_distance else entry + stop_distance);
               cid = make_client_order_id (clock env (clock_reads s)) (py_str strat) (py_str symb)
                       (side_value stop_side) None 0;
               s1 = s\<lparr>clock_reads := Suc (clock_reads s)\<rparr>;
               stop_request = \<lparr>req_symbol = symb, req_type = STOP_MARKET, req_side = stop_side,
                  req_amount = position_size, req_price = None,
                  req_params = \<lparr>clientOrderId = cid, reduceOnly = Some True,
                                 stopPrice = Some stop_px\<rparr>\<rparr> in
           if dry_run cfg then (None, ex_logged Info ''execution_service.dry_run_stop'' s1)
           else
             (let s2 = s1\<lparr>venue_calls := venue_calls s1 @ [(exch, stop_request)]\<rparr> in
              (case venue_create_order env (length (venue_calls s1)) exch stop_request of
                 Inl err \<Rightarrow> (None, ex_logged Error ''execution_service.stop_install_failed'' s2)
               | Inr response \<Rightarrow>
                   (case update_position env symb exch strat
                           (if side = BUY then position_size else - position_size) entry stop_px
                           (ex_logged Info ''execution_service.stop_installed'' s2) of
                      (Some e, s3) \<Rightarrow>
                        (None, ex_logged Error ''execution_service.stop_install_failed'' s3)
                    | (None, s3) \<Rightarrow> (None, s3)))))))"

definition known_exchange :: "exec_settings \<Rightarrow> signal_payload \<Rightarrow> bool" where
  "known_exchange cfg payload =
     (case sig_exchange payload of None \<Rightarrow> False | Some ex \<Rightarrow> ex \<in> set (clients cfg))"

definition has_risk_info :: "signal_payload \<Rightarrow> bool" where
  "has_risk_info payload =
     (truthy (map_of (get_or (sig_risk payload) []) ''position_size'')
      \<and> truthy (map_of (get_or (sig_risk payload) []) ''stop_distance''))"

definition handle_signal ::
  "exec_env \<Rightarrow> exec_settings \<Rightarrow> signal_payload \<Rightarrow> exec_state \<Rightarrow> py_error option \<times> exec_state" where
  "handle_signal env cfg payload s =
     (let exchange_name = sig_exchange payload;
          symb = sig_symbol payload;
          strat = sig_strategy payload;
          decision = sig_decision payload;
          risk = get_or (sig_risk payload) [] in
      if \<not> known_exchange cfg payload
        then (None, ex_logged Error ''execution_service.unknown_exchange'' s)
      else
        let exch = the exchange_name;
            position_size = map_of risk ''position_size'';
            stop_distance = map_of risk ''stop_distance'' in
        if \<not> truthy position_size \<or> \<not> truthy stop_distance
          then (None, ex_logged Error ''execution_service.missing_risk_info'' s)
        else
          let side = (if decision = Some ''buy'' then BUY else SELL);
              cid = make_client_order_id (clock env (clock_reads s)) (py_str strat) (py_str symb)
                      (side_value side) None 0;
              s1 = s\<lparr>clock_reads := Suc (clock_reads s)\<rparr>;
              order_type = LIMIT;
              price = sig_price payload;
              order_request = \<lparr>req_symbol = symb, req_type = order_type, req_side = side,
                 req_amount = the position_size, req_price = price,
                 req_params = \<lparr>clientOrderId = cid, reduceOnly = None, stopPrice = None\<rparr>\<rparr> in
          if dry_run cfg then
            record_order cid exch strat symb side order_type price (the position_size)
              order_request [(''status'', ''dry_run'')] NEW
              (ex_logged Info ''execution_service.dry_run_order'' s1)
          else
            let s2 = s1\<lparr>venue_calls := venue_calls s1 @ [(exch, order_request)]\<rparr> in
            (case venue_create_order env (length (venue_calls s1)) exch order_request of
              Inl err \<Rightarrow> (None, ex_logged Error ''execution_service.order_failed'' s2)
            | Inr response \<Rightarrow>
                (case record_order cid exch strat symb side order_type price (the position_size)
                        order_request response PENDING s2 of
                   (Some e, s3) \<Rightarrow> (None, ex_logged Error ''execution_service.order_failed'' s3)
                 | (None, s3) \<Rightarrow>
                     (case install_stop env cfg strat exch symb side price (the stop_distance)
                             (the position_size) s3 of
                        (Some e, s4) \<Rightarrow>
                          (None, ex_logged Error ''execution_service.order_failed'' s4)
                      | (None, s4) \<Rightarrow> (None, s4)))))"

fun run_signals ::
  "exec_env \<Rightarrow> exec_settings \<Rightarrow> signal_payload list \<Rightarrow> exec_state \<Rightarrow> py_error option \<times> exec_state" where
  \<comment> \<open>the body of \<open>run\<close> on the events the bus delivers, in order; an exception that escapes
      a handler ends the loop\<close>
  "run_signals env cfg [] s = (None, s)"
| "run_signals env cfg (ev # evs) s =
     (case handle_signal env cfg ev s of
        (Some e, s') \<Rightarrow> (Some e, s')
      | (None, s') \<Rightarrow> run_signals env cfg evs s')"

text \<open>
  The two requests the handler builds, named for the statements below: the entry request of
  \<open>_handle_signal\<close> and the stop request of \<open>_install_stop\<close>, each carrying the id computed
  from the clock reading current at that point.
\<close>

definition entry_side :: "signal_payload \<Rightarrow> OrderSide" where
  "entry_side payload = (if sig_decision payload = Some ''buy'' then BUY else SELL)"

definition entry_request :: "exec_env \<Rightarrow> signal_payload \<Rightarrow> exec_state \<Rightarrow> order_request" where
  "entry_request env payload s =
     \<lparr>req_symbol = sig_symbol payload, req_type = LIMIT, req_side = entry_side payload,
      req_amount = the (map_of (get_or (sig_risk payload) []) ''position_size''),
      req_price = sig_price payload,
      req_params = \<lparr>clientOrderId =
          make_client_order_id (clock env (clock_reads s)) (py_str (sig_strategy payload))
            (py_str (sig_symbol payload)) (side_value (entry_side payload)) None 0,
        reduceOnly = None, stopPrice = None\<rparr>\<rparr>"

definition stop_request ::
  "exec_env \<Rightarrow> string option \<Rightarrow> string option \<Rightarrow> OrderSide \<Rightarrow> real \<Rightarrow> real \<Rightarrow> real
     \<Rightarrow> exec_state \<Rightarrow> order_request" where
  "stop_request env strat symb side entry stop_distance position_size s =
     \<lparr>req_symbol = symb, req_type = STOP_MARKET,
      req_side = (if side = BUY then SELL else BUY),
      req_amount = position_size, req_price = None,
      req_params = \<lparr>clientOrderId =
          make_client_order_id (clock env (clock_reads s)) (py_str strat) (py_str symb)
            (side_value (if side = BUY then SELL else BUY)) None 0,
        reduceOnly = Some True,
        stopPrice = Some (if side = BUY then entry - stop_distance else entry + stop_distance)\<rparr>\<rparr>"

text \<open>
  The stop request that follows the entry of a signal with price \<open>p\<close>: the entry took one clock
  reading, so the stop's id is computed from the next one.
\<close>

definition stop_sent :: "exec_env \<Rightarrow> signal_payload \<Rightarrow> exec_state \<Rightarrow> real \<Rightarrow> order_request" where
  "stop_sent env ev s p =
     stop_request env (sig_strategy ev) (sig_symbol ev) (entry_side ev) p
       (the (map_of (get_or (sig_risk ev) []) ''stop_distance''))
       (req_amount (entry_request env ev s)) (s\<lparr>clock_reads := Suc (clock_reads s)\<rparr>)"

section \<open>Concrete inputs used by the witnesses and counterexamples\<close>

definition default_risk_settings :: risk_settings where
  \<comment> \<open>\<open>RiskConfig().model_dump()\<close> with the defaults of \<open>config.py\<close>\<close>
  "default_risk_settings = \<lparr>max_risk_per_trade = Some (2 / 100), max_portfolio_heat = Some (6 / 100),
     max_leverage = Some (3 / 2),
     volatility_targeting = Some \<lparr>enabled = None, target_portfolio_vol = None\<rparr>,
     circuit_breakers = Some \<lparr>cb_daily_loss = None, cb_total_drawdown = None\<rparr>\<rparr>"


definition closed_position :: Position where
  "closed_position = \<lparr>symbol = ''BTC/USDT'', exchange = ''binance'', strategy = ''trend'',
     quantity = 1000, entry_price = 50, stop_price = 44, take_profit_price = None,
     reduce_only_stop_installed = True, opened_at = 1, closed_at = Some 2\<rparr>"

definition zero_stop_signal :: signal_payload where
  "zero_stop_signal = \<lparr>sig_strategy = Some ''trend'', sig_exchange = Some ''binance'',
     sig_symbol = Some ''BTC/USDT'', sig_decision = Some ''buy'', sig_confidence = Some (6 / 10),
     sig_price = Some 100, sig_risk = Some [(''stop_distance'', 0), (''position_size'', 500)],
     sig_risk_approved = None\<rparr>"

definition idle_risk_service :: risk_service where
  "idle_risk_service = \<lparr>rs_positions = [], rs_equity = 100000, rs_published = [], rs_log = []\<rparr>"


definition ticking_clock :: "nat \<Rightarrow> int" where
  "ticking_clock n = 1700000000000000000 + int n"

definition live_env :: exec_env where
  \<comment> \<open>a venue that accepts every order\<close>
  "live_env = \<lparr>clock = ticking_clock,
     venue_create_order = (\<lambda>n ex rq. Inr [(''status'', ''open'')])\<rparr>"

definition stop_rejecting_env :: exec_env where
  \<comment> \<open>a venue that accepts the first order it receives and raises on every later one\<close>
  "stop_rejecting_env = \<lparr>clock = ticking_clock,
     venue_create_order = (\<lambda>n ex rq. if n = 0 then Inr [(''status'', ''open'')]
                                        else Inl ''stop orders are disabled'')\<rparr>"

definition live_settings :: exec_settings where
  "live_settings = \<lparr>dry_run = False, clients = [''binance'']\<rparr>"

definition dry_settings :: exec_settings where
  "dry_settings = \<lparr>dry_run = True, clients = [''binance'']\<rparr>"

definition buy_signal :: signal_payload where
  "buy_signal = \<lparr>sig_strategy = Some ''trend'', sig_exchange = Some ''binance'',
     sig_symbol = Some ''BTC/USDT'', sig_decision = Some ''buy'', sig_confidence = Some (6 / 10),
     sig_price = Some 100, sig_risk = Some [(''stop_distance'', 4), (''position_size'', 500)],
     sig_risk_approved = Some True\<rparr>"

definition idle_exec :: exec_state where
  "idle_exec = \<lparr>orders = [], positions = [], venue_calls = [], ex_log = [], clock_reads = 0\<rparr>"

section \<open>Properties of the risk arithmetic\<close>

lemma open_risk_loop_sum:
  "calculate_open_risk_loop acc ps = acc + sum_list (map position_risk ps)"
  by (induction ps arbitrary: acc) (simp_all add: position_risk_def Let_def)

lemma sum_list_split_open:
  "sum_list (map position_risk ps) =
     sum_list (map position_risk (filter is_open ps))
     + sum_list (map position_risk (filter (\<lambda>p. \<not> is_open p) ps))"
  by (induction ps) simp_all

text \<open>
  Claim C3, as the code has it: \<open>_calculate_open_risk\<close> reads every row of the positions
  table, so the open risk it loads is the risk of the open rows plus the risk of the
  closed rows; a row with \<open>closed_at\<close> set contributes its full
  \<open>|entry_price - stop_price| * |quantity|\<close>.
\<close>

theorem open_risk_counts_all_rows:
  "calculate_open_risk ps =
     spec_open_risk ps + sum_list (map position_risk (filter (\<lambda>p. \<not> is_open p) ps))"
  unfolding calculate_open_risk_def spec_open_risk_def
  by (simp add: open_risk_loop_sum sum_list_split_open [symmetric])

text \<open>
  Claim C3 as stated fails: for a table holding one closed position of 1000 units entered
  at 50 with its stop at 44, the service loads an open risk of 6000, while the sum over
  the open positions is 0.
\<close>

theorem open_risk_closed_counterexample:
  "calculate_open_risk [closed_position] = 6000 \<and> spec_open_risk [closed_position] = 0
   \<and> calculate_open_risk [closed_position] \<noteq> spec_open_risk [closed_position]"
  by (simp add: calculate_open_risk_def spec_open_risk_def closed_position_def is_open_def)





text \<open>
  Claim C10: a signal whose risk payload is present but carries \<open>stop_distance = 0\<close> or
  \<open>position_size = 0\<close> is dropped by the RiskService: it logs the warning
  \<open>risk_service.incomplete_risk_payload\<close>, the same one as for a missing field, publishes
  nothing on the approved stream and reaches neither the circuit breakers nor the
  leverage check.
\<close>

theorem zero_risk_field_dropped:
  "sig_risk payload = Some r \<Longrightarrow> r \<noteq> [] \<Longrightarrow>
   map_of r ''stop_distance'' = Some 0 \<or> map_of r ''position_size'' = Some 0 \<Longrightarrow>
   risk_handle_signal cfg payload s
     = Inr (s\<lparr>rs_log := rs_log s @ [(Warning, ''risk_service.incomplete_risk_payload'')]\<rparr>)"
  by (auto simp: risk_handle_signal_def get_or_def truthy_def rs_warn_def Let_def)

theorem zero_risk_field_dropped_witness:
  "sig_risk zero_stop_signal = Some [(''stop_distance'', 0), (''position_size'', 500)]
   \<and> map_of [(''stop_distance'', 0::real), (''position_size'', 500)] ''stop_distance'' = Some 0
   \<and> rs_published (projr (risk_handle_signal default_risk_settings zero_stop_signal idle_risk_service)) = []
   \<and> rs_log (projr (risk_handle_signal default_risk_settings zero_stop_signal idle_risk_service))
       = [(Warning, ''risk_service.incomplete_risk_payload'')]"
  using zero_risk_field_dropped [where payload = zero_stop_signal
          and r = "[(''stop_distance'', 0), (''position_size'', 500)]"
          and cfg = default_risk_settings and s = idle_risk_service]
  by (simp add: zero_stop_signal_def idle_risk_service_def)

section \<open>Properties of the trend strategy\<close>






section \<open>Properties of the client order id\<close>

lemma length_blake2b_compress: "length (blake2b_compress h m t final) = 8"
  by (simp add: blake2b_compress_def Let_def)

lemma length_blake2b_blocks: "length (blake2b_blocks h t bs) = 8"
proof (induction h t bs rule: blake2b_blocks.induct)
  case (1 h t bs)
  show ?case
  proof (cases "length bs > 128")
    case True
    with 1 show ?thesis by (subst blake2b_blocks.simps) simp
  next
    case False
    then show ?thesis by (subst blake2b_blocks.simps) (simp add: length_blake2b_compress)
  qed
qed

lemma length_le_bytes: "length (le_bytes n w) = n"
  by (induction n arbitrary: w) simp_all

lemma le_bytes_small: "b \<in> set (le_bytes n w) \<Longrightarrow> b < 256"
proof (induction n arbitrary: w)
  case 0
  then show ?case by simp
next
  case (Suc n)
  have "nat (w mod 256) < 256" by simp
  with Suc show ?case by auto
qed

lemma length_concat_le_bytes: "length (concat (map (le_bytes 8) ws)) = 8 * length ws"
  by (induction ws) (simp_all add: length_le_bytes)

lemma length_blake2b: "nn \<le> 64 \<Longrightarrow> length (blake2b nn data) = nn"
  by (simp add: blake2b_def Let_def length_concat_le_bytes length_blake2b_blocks)

lemma blake2b_bytes: "b \<in> set (blake2b nn data) \<Longrightarrow> b < 256"
  by (auto simp: blake2b_def Let_def dest!: in_set_takeD le_bytes_small)

lemma length_hexdigest: "length (hexdigest bs) = 2 * length bs"
  by (induction bs) (simp_all add: hexdigest_def)

lemma hex_digit_in: "n < 16 \<Longrightarrow> hex_digit n \<in> set hex_alphabet"
  unfolding hex_digit_def by (rule nth_mem) (simp add: hex_alphabet_def)

lemma hexdigest_chars:
  "\<forall>b \<in> set bs. b < 256 \<Longrightarrow> set (hexdigest bs) \<subseteq> set hex_alphabet"
proof (induction bs)
  case Nil
  then show ?case by (simp add: hexdigest_def)
next
  case (Cons b bs)
  then have b: "b < 256" by simp
  from b have "b div 16 < 16" by simp
  then have hi: "hex_digit (b div 16) \<in> set hex_alphabet" by (rule hex_digit_in)
  have "b mod 16 < 16" by simp
  then have lo: "hex_digit (b mod 16) \<in> set hex_alphabet" by (rule hex_digit_in)
  have rest: "set (hexdigest bs) \<subseteq> set hex_alphabet" using Cons by simp
  have "hexdigest (b # bs) = hex_digit (b div 16) # hex_digit (b mod 16) # hexdigest bs"
    by (simp add: hexdigest_def)
  with hi lo rest show ?case by simp
qed



text \<open>
  Claim C2: called with an explicit \<open>timestamp_ns\<close>, \<open>make_client_order_id\<close> does not
  consult the clock, so the same strategy, symbol, side, timestamp and nonce give the same
  string on every invocation; that string has exactly 24 characters, all of them
  hexadecimal digits.
\<close>

theorem client_order_id_deterministic_24_hex:
  "make_client_order_id now strat symb side (Some ts) nonce
     = make_client_order_id now' strat symb side (Some ts) nonce
   \<and> length (make_client_order_id now strat symb side (Some ts) nonce) = 24
   \<and> set (make_client_order_id now strat symb side (Some ts) nonce) \<subseteq> set hex_alphabet"
proof -
  have "length (make_client_order_id now strat symb side (Some ts) nonce) = 24"
    by (simp add: make_client_order_id_def Let_def length_hexdigest length_blake2b)
  moreover have "set (make_client_order_id now strat symb side (Some ts) nonce)
      \<subseteq> set hex_alphabet"
    unfolding make_client_order_id_def Let_def
    by (rule hexdigest_chars) (blast dest: blake2b_bytes)
  moreover have "make_client_order_id now strat symb side (Some ts) nonce
     = make_client_order_id now' strat symb side (Some ts) nonce"
    by (simp add: make_client_order_id_def)
  ultimately show ?thesis by blast
qed

section \<open>Properties of the ExecutionService\<close>

lemma record_order_cases:
  assumes "record_order cid ex st sy side ot p q rq rs stt s = (r, s')"
  shows "(r = Some IntegrityError \<and> s' = s) \<or>
         (r = None \<and> (\<exists>row. s' = s\<lparr>orders := orders s @ [row]\<rparr> \<and> status row = stt
            \<and> raw_response row = rs \<and> client_order_id row = cid \<and> ord_type row = ot
            \<and> cid \<notin> set (map client_order_id (orders s))))"
  using assms by (auto simp: record_order_def split: option.splits if_splits)

lemma update_position_frame:
  assumes "update_position env sy ex st q e sp s = (r, s')"
  shows "venue_calls s' = venue_calls s \<and> orders s' = orders s \<and> ex_log s' = ex_log s
         \<and> (r \<noteq> None \<longrightarrow> s' = s)"
  using assms by (auto simp: update_position_def split: option.splits list.splits)

lemma handle_unknown:
  "\<not> known_exchange cfg ev \<Longrightarrow>
   handle_signal env cfg ev s = (None, ex_logged Error ''execution_service.unknown_exchange'' s)"
  by (simp add: handle_signal_def Let_def)

lemma handle_missing:
  "known_exchange cfg ev \<Longrightarrow> \<not> has_risk_info ev \<Longrightarrow>
   handle_signal env cfg ev s = (None, ex_logged Error ''execution_service.missing_risk_info'' s)"
  by (auto simp: handle_signal_def has_risk_info_def Let_def)

lemma handle_dry:
  "known_exchange cfg ev \<Longrightarrow> has_risk_info ev \<Longrightarrow> dry_run cfg \<Longrightarrow>
   handle_signal env cfg ev s =
     record_order (clientOrderId (req_params (entry_request env ev s))) (the (sig_exchange ev))
       (sig_strategy ev) (sig_symbol ev) (entry_side ev) LIMIT (sig_price ev)
       (req_amount (entry_request env ev s)) (entry_request env ev s) [(''status'', ''dry_run'')] NEW
       (ex_logged Info ''execution_service.dry_run_order'' (s\<lparr>clock_reads := Suc (clock_reads s)\<rparr>))"
  by (simp add: handle_signal_def has_risk_info_def Let_def entry_request_def entry_side_def)

lemma handle_live:
  "known_exchange cfg ev \<Longrightarrow> has_risk_info ev \<Longrightarrow> \<not> dry_run cfg \<Longrightarrow>
   handle_signal env cfg ev s =
     (let exch = the (sig_exchange ev);
          rq = entry_request env ev s;
          s2 = s\<lparr>clock_reads := Suc (clock_reads s), venue_calls := venue_calls s @ [(exch, rq)]\<rparr> in
      (case venue_create_order env (length (venue_calls s)) exch rq of
         Inl err \<Rightarrow> (None, ex_logged Error ''execution_service.order_failed'' s2)
       | Inr response \<Rightarrow>
           (case record_order (clientOrderId (req_params rq)) exch (sig_strategy ev) (sig_symbol ev)
                   (entry_side ev) LIMIT (sig_price ev) (req_amount rq) rq response PENDING s2 of
              (Some e, s3) \<Rightarrow> (None, ex_logged Error ''execution_service.order_failed'' s3)
            | (None, s3) \<Rightarrow>
                (case install_stop env cfg (sig_strategy ev) exch (sig_symbol ev) (entry_side ev)
                        (sig_price ev) (the (map_of (get_or (sig_risk ev) []) ''stop_distance''))
                        (req_amount rq) s3 of
                   (Some e, s4) \<Rightarrow> (None, ex_logged Error ''execution_service.order_failed'' s4)
                 | (None, s4) \<Rightarrow> (None, s4)))))"
  by (simp add: handle_signal_def has_risk_info_def Let_def entry_request_def entry_side_def
        ex_logged_def split: sum.splits prod.splits option.splits)

lemma install_stop_no_price:
  "install_stop env cfg strat exch symb side None sd ps s = (Some TypeError, s)"
  by (simp add: install_stop_def)

lemma install_stop_live:
  "\<not> dry_run cfg \<Longrightarrow>
   install_stop env cfg strat exch symb side (Some p) sd ps s =
     (let rq = stop_request env strat symb side p sd ps s;
          s2 = s\<lparr>clock_reads := Suc (clock_reads s), venue_calls := venue_calls s @ [(exch, rq)]\<rparr> in
      (case venue_create_order env (length (venue_calls s)) exch rq of
         Inl err \<Rightarrow> (None, ex_logged Error ''execution_service.stop_install_failed'' s2)
       | Inr response \<Rightarrow>
           (case update_position env symb exch strat (if side = BUY then ps else - ps) p
                   (if side = BUY then p - sd else p + sd)
                   (ex_logged Info ''execution_service.stop_installed'' s2) of
              (Some e, s3) \<Rightarrow> (None, ex_logged Error ''execution_service.stop_install_failed'' s3)
            | (None, s3) \<Rightarrow> (None, s3))))"
  by (simp add: install_stop_def Let_def stop_request_def ex_logged_def
        split: sum.splits prod.splits option.splits)

lemma stop_request_clock:
  "clock_reads s1 = clock_reads s2 \<Longrightarrow>
   stop_request env strat symb side p sd ps s1 = stop_request env strat symb side p sd ps s2"
  by (simp add: stop_request_def)

lemma handle_outcomes:
  assumes run: "handle_signal env cfg ev s = (r, s')"
  shows "venue_calls s' = venue_calls s
     \<or> (venue_calls s' = venue_calls s @ [(the (sig_exchange ev), entry_request env ev s)]
          \<and> positions s' = positions s)
     \<or> (\<exists>p resp row. sig_price ev = Some p
          \<and> venue_create_order env (length (venue_calls s)) (the (sig_exchange ev))
                (entry_request env ev s) = Inr resp
          \<and> venue_calls s' = venue_calls s @
                [(the (sig_exchange ev), entry_request env ev s),
                 (the (sig_exchange ev), stop_sent env ev s p)]
          \<and> orders s' = orders s @ [row] \<and> status row = PENDING \<and> raw_response row = resp
          \<and> client_order_id row = clientOrderId (req_params (entry_request env ev s))
          \<and> r = None
          \<and> (\<forall>err. venue_create_order env (Suc (length (venue_calls s))) (the (sig_exchange ev))
                  (stop_sent env ev s p) = Inl err \<longrightarrow>
                positions s' = positions s
                \<and> ex_log s' = ex_log s @ [(Error, ''execution_service.stop_install_failed'')]))"
proof -
  let ?ex = "the (sig_exchange ev)" and ?E = "entry_request env ev s"
  consider (unknown) "\<not> known_exchange cfg ev"
    | (missing) "known_exchange cfg ev" "\<not> has_risk_info ev"
    | (dry) "known_exchange cfg ev" "has_risk_info ev" "dry_run cfg"
    | (live) "known_exchange cfg ev" "has_risk_info ev" "\<not> dry_run cfg"
    by blast
  then show ?thesis
  proof cases
    case unknown
    with run have "venue_calls s' = venue_calls s" by (auto simp: handle_unknown ex_logged_def)
    then show ?thesis by (rule disjI1)
  next
    case missing
    with run have "venue_calls s' = venue_calls s" by (auto simp: handle_missing ex_logged_def)
    then show ?thesis by (rule disjI1)
  next
    case dry
    with run have "record_order (clientOrderId (req_params ?E)) ?ex
       (sig_strategy ev) (sig_symbol ev) (entry_side ev) LIMIT (sig_price ev)
       (req_amount ?E) ?E [(''status'', ''dry_run'')] NEW
       (ex_logged Info ''execution_service.dry_run_order'' (s\<lparr>clock_reads := Suc (clock_reads s)\<rparr>))
        = (r, s')" by (simp add: handle_dry)
    from record_order_cases [OF this] have "venue_calls s' = venue_calls s"
      by (auto simp: ex_logged_def)
    then show ?thesis by (rule disjI1)
  next
    case live
    let ?s2 = "s\<lparr>clock_reads := Suc (clock_reads s), venue_calls := venue_calls s @ [(?ex, ?E)]\<rparr>"
    note eq = run [unfolded handle_live [OF live] Let_def]
    show ?thesis
    proof (cases "venue_create_order env (length (venue_calls s)) ?ex ?E")
      case (Inl err)
      with eq have "venue_calls s' = venue_calls s @ [(?ex, ?E)] \<and> positions s' = positions s"
        by (auto simp: ex_logged_def)
      then show ?thesis by blast
    next
      case (Inr resp)
      obtain r3 s3 where ro: "record_order (clientOrderId (req_params ?E)) ?ex (sig_strategy ev)
          (sig_symbol ev) (entry_side ev) LIMIT (sig_price ev) (req_amount ?E) ?E resp PENDING ?s2
          = (r3, s3)" by force
      from record_order_cases [OF ro] show ?thesis
      proof
        assume "r3 = Some IntegrityError \<and> s3 = ?s2"
        with eq Inr ro
        have "venue_calls s' = venue_calls s @ [(?ex, ?E)] \<and> positions s' = positions s"
          by (auto simp: ex_logged_def)
        then show ?thesis by blast
      next
        assume "r3 = None \<and> (\<exists>row. s3 = ?s2\<lparr>orders := orders ?s2 @ [row]\<rparr> \<and> status row = PENDING
            \<and> raw_response row = resp \<and> client_order_id row = clientOrderId (req_params ?E)
            \<and> ord_type row = LIMIT
            \<and> clientOrderId (req_params ?E) \<notin> set (map client_order_id (orders ?s2)))"
        then obtain row where r3: "r3 = None" and s3: "s3 = ?s2\<lparr>orders := orders ?s2 @ [row]\<rparr>"
          and row: "status row = PENDING" "raw_response row = resp"
            "client_order_id row = clientOrderId (req_params ?E)" by blast
        show ?thesis
        proof (cases "sig_price ev")
          case None
          with eq Inr ro r3 s3
          have "venue_calls s' = venue_calls s @ [(?ex, ?E)] \<and> positions s' = positions s"
            by (auto simp: install_stop_no_price ex_logged_def)
          then show ?thesis by blast
        next
          case (Some p)
          let ?S = "stop_sent env ev s p"
          have S: "stop_request env (sig_strategy ev) (sig_symbol ev) (entry_side ev) p
              (the (map_of (get_or (sig_risk ev) []) ''stop_distance'')) (req_amount ?E) s3 = ?S"
            unfolding stop_sent_def by (rule stop_request_clock) (simp add: s3)
          let ?s4 = "s3\<lparr>clock_reads := Suc (clock_reads s3), venue_calls := venue_calls s3 @ [(?ex, ?S)]\<rparr>"
          have len: "length (venue_calls s3) = Suc (length (venue_calls s))" by (simp add: s3)
          note is_eq = install_stop_live [OF live(3), of env "sig_strategy ev" ?ex "sig_symbol ev"
              "entry_side ev" p "the (map_of (get_or (sig_risk ev) []) ''stop_distance'')"
              "req_amount ?E" s3, unfolded Let_def S len]
          show ?thesis
          proof (cases "venue_create_order env (Suc (length (venue_calls s))) ?ex ?S")
            case (Inl err)
            with is_eq have "install_stop env cfg (sig_strategy ev) ?ex (sig_symbol ev)
                (entry_side ev) (Some p) (the (map_of (get_or (sig_risk ev) []) ''stop_distance''))
                (req_amount ?E) s3
                = (None, ex_logged Error ''execution_service.stop_install_failed'' ?s4)" by simp
            with eq Inr ro r3 Some have "r = None"
              "s' = ex_logged Error ''execution_service.stop_install_failed'' ?s4" by auto
            with s3 row Some Inr Inl show ?thesis by (simp add: ex_logged_def)
          next
            case (Inr resp2)
            obtain r5 s5 where up: "update_position env (sig_symbol ev) ?ex (sig_strategy ev)
                (if entry_side ev = BUY then req_amount ?E else - req_amount ?E) p
                (if entry_side ev = BUY
                 then p - the (map_of (get_or (sig_risk ev) []) ''stop_distance'')
                 else p + the (map_of (get_or (sig_risk ev) []) ''stop_distance''))
                (ex_logged Info ''execution_service.stop_installed'' ?s4) = (r5, s5)" by force
            from update_position_frame [OF up]
            have fr: "venue_calls s5 = venue_calls ?s4" "orders s5 = orders ?s4"
              by (simp_all add: ex_logged_def)
            from is_eq Inr up have "install_stop env cfg (sig_strategy ev) ?ex (sig_symbol ev)
                (entry_side ev) (Some p) (the (map_of (get_or (sig_risk ev) []) ''stop_distance''))
                (req_amount ?E) s3
                = (None, if r5 = None then s5
                         else ex_logged Error ''execution_service.stop_install_failed'' s5)"
              by (cases r5) simp_all
            with eq \<open>venue_create_order env (length (venue_calls s)) ?ex ?E = Inr resp\<close> ro r3 Some
            have "r = None" "s' = (if r5 = None then s5
                         else ex_logged Error ''execution_service.stop_install_failed'' s5)" by auto
            with fr s3 row Some Inr \<open>venue_create_order env (length (venue_calls s)) ?ex ?E = Inr resp\<close>
            show ?thesis by (simp add: ex_logged_def)
          qed
        qed
      qed
    qed
  qed
qed

lemma dry_run_step:
  assumes dry: "dry_run cfg" and run: "handle_signal env cfg ev s = (r, s')"
  shows "venue_calls s' = venue_calls s \<and> positions s' = positions s
     \<and> (r = None \<or> r = Some IntegrityError)
     \<and> (\<exists>new. orders s' = orders s @ new
          \<and> (\<forall>x \<in> set new. status x = NEW \<and> raw_response x = [(''status'', ''dry_run'')]
                \<and> ord_type x = LIMIT)
          \<and> (r = None \<longrightarrow>
                length new = (if known_exchange cfg ev \<and> has_risk_info ev then 1 else 0)))"
proof -
  consider (unknown) "\<not> known_exchange cfg ev"
    | (missing) "known_exchange cfg ev" "\<not> has_risk_info ev"
    | (dry) "known_exchange cfg ev" "has_risk_info ev"
    by blast
  then show ?thesis
  proof cases
    case unknown
    with run have "r = None" "s' = ex_logged Error ''execution_service.unknown_exchange'' s"
      by (auto simp: handle_unknown)
    with unknown show ?thesis by (simp add: ex_logged_def)
  next
    case missing
    with run have "r = None" "s' = ex_logged Error ''execution_service.missing_risk_info'' s"
      by (auto simp: handle_missing)
    with missing show ?thesis by (simp add: ex_logged_def)
  next
    case dry
    let ?E = "entry_request env ev s"
    let ?s1 = "ex_logged Info ''execution_service.dry_run_order'' (s\<lparr>clock_reads := Suc (clock_reads s)\<rparr>)"
    from dry assms have ro: "record_order (clientOrderId (req_params ?E)) (the (sig_exchange ev))
       (sig_strategy ev) (sig_symbol ev) (entry_side ev) LIMIT (sig_price ev)
       (req_amount ?E) ?E [(''status'', ''dry_run'')] NEW ?s1 = (r, s')" by (simp add: handle_dry)
    have s1: "venue_calls ?s1 = venue_calls s" "positions ?s1 = positions s" "orders ?s1 = orders s"
      by (simp_all add: ex_logged_def)
    from record_order_cases [OF ro] show ?thesis
    proof
      assume "r = Some IntegrityError \<and> s' = ?s1"
      with s1 show ?thesis by simp
    next
      assume "r = None \<and> (\<exists>row. s' = ?s1\<lparr>orders := orders ?s1 @ [row]\<rparr> \<and> status row = NEW
            \<and> raw_response row = [(''status'', ''dry_run'')]
            \<and> client_order_id row = clientOrderId (req_params ?E) \<and> ord_type row = LIMIT
            \<and> clientOrderId (req_params ?E) \<notin> set (map client_order_id (orders ?s1)))"
      then obtain row where "r = None" "s' = ?s1\<lparr>orders := orders ?s1 @ [row]\<rparr>" "status row = NEW"
        "raw_response row = [(''status'', ''dry_run'')]" "ord_type row = LIMIT" by blast
      with s1 dry show ?thesis by simp
    qed
  qed
qed

lemmas exec_eval =
  handle_signal_def install_stop_def record_order_def update_position_def known_exchange_def
  has_risk_info_def truthy_def get_or_def ex_logged_def entry_request_def stop_sent_def
  stop_request_def entry_side_def same_key_def Let_def
  live_env_def stop_rejecting_env_def live_settings_def dry_settings_def buy_signal_def
  zero_stop_signal_def idle_exec_def

text \<open>
  Claim C6: handling a signal sends the venue nothing, or only the entry request, or the
  entry request followed by one further request. That further request is sent only after
  the venue accepted the entry, and it is a \<open>stop_market\<close> order on the opposite side, for
  the entry's position size, with no limit price, \<open>reduceOnly\<close> set to true and stop
  price equal to the entry price minus the stop distance for a buy entry and plus the stop
  distance for a sell entry.
\<close>

theorem protective_stop_request:
  assumes run: "handle_signal env cfg ev s = (r, s')"
  shows "venue_calls s' = venue_calls s
     \<or> venue_calls s' = venue_calls s @ [(the (sig_exchange ev), entry_request env ev s)]
     \<or> (\<exists>p resp stp. sig_price ev = Some p
          \<and> venue_create_order env (length (venue_calls s)) (the (sig_exchange ev))
                (entry_request env ev s) = Inr resp
          \<and> venue_calls s' = venue_calls s @
                [(the (sig_exchange ev), entry_request env ev s), (the (sig_exchange ev), stp)]
          \<and> req_type stp = STOP_MARKET
          \<and> req_side stp = (if entry_side ev = BUY then SELL else BUY)
          \<and> req_amount stp = the (map_of (get_or (sig_risk ev) []) ''position_size'')
          \<and> req_price stp = None
          \<and> reduceOnly (req_params stp) = Some True
          \<and> stopPrice (req_params stp) =
                Some (if entry_side ev = BUY
                      then p - the (map_of (get_or (sig_risk ev) []) ''stop_distance'')
                      else p + the (map_of (get_or (sig_risk ev) []) ''stop_distance'')))"
proof -
  have shape: "req_type (stop_sent env ev s p) = STOP_MARKET
      \<and> req_side (stop_sent env ev s p) = (if entry_side ev = BUY then SELL else BUY)
      \<and> req_amount (stop_sent env ev s p) = the (map_of (get_or (sig_risk ev) []) ''position_size'')
      \<and> req_price (stop_sent env ev s p) = None
      \<and> reduceOnly (req_params (stop_sent env ev s p)) = Some True
      \<and> stopPrice (req_params (stop_sent env ev s p)) =
            Some (if entry_side ev = BUY
                  then p - the (map_of (get_or (sig_risk ev) []) ''stop_distance'')
                  else p + the (map_of (get_or (sig_risk ev) []) ''stop_distance''))" for p
    by (simp add: stop_sent_def stop_request_def entry_request_def)
  from handle_outcomes [OF run] shape show ?thesis by blast
qed

theorem protective_stop_request_witness:
  "map (\<lambda>(ex, rq). (ex, req_type rq, req_side rq, req_amount rq, req_price rq,
                      reduceOnly (req_params rq), stopPrice (req_params rq)))
     (venue_calls (snd (handle_signal live_env live_settings buy_signal idle_exec)))
   = [(''binance'', LIMIT, BUY, 500, Some 100, None, None),
      (''binance'', STOP_MARKET, SELL, 500, None, Some True, Some 96)]"
proof -
  obtain r s' where run: "handle_signal live_env live_settings buy_signal idle_exec = (r, s')"
    by force
  have two: "length (venue_calls s') = 2" and first:
    "map (\<lambda>(ex, rq). (ex, req_type rq, req_side rq, req_amount rq, req_price rq,
                      reduceOnly (req_params rq), stopPrice (req_params rq))) (take 1 (venue_calls s'))
     = [(''binance'', LIMIT, BUY, 500, Some 100, None, None)]"
    using run by (auto simp: exec_eval)
  have ev: "sig_price buy_signal = Some 100" "the (sig_exchange buy_signal) = ''binance''"
    "entry_side buy_signal = BUY"
    "the (map_of (get_or (sig_risk buy_signal) []) ''position_size'') = 500"
    "the (map_of (get_or (sig_risk buy_signal) []) ''stop_distance'') = 4"
    by (simp_all add: exec_eval)
  from protective_stop_request [OF run] two obtain stp where
    "venue_calls s' = venue_calls idle_exec @
        [(''binance'', entry_request live_env buy_signal idle_exec), (''binance'', stp)]"
    "req_type stp = STOP_MARKET" "req_side stp = SELL" "req_amount stp = 500" "req_price stp = None"
    "reduceOnly (req_params stp) = Some True" "stopPrice (req_params stp) = Some 96"
    unfolding ev by (auto simp: idle_exec_def)
  with first run show ?thesis by (simp add: idle_exec_def)
qed

text \<open>
  Claim C7: when the handler sent the entry and the stop request, the venue accepted the
  entry and raised on the stop, then no exception leaves the handler, the order row recorded
  with status \<open>pending\<close> (carrying the venue's response and the entry's client order id)
  is in the orders table, the positions table is unchanged, and the only trace of the
  failure is the error \<open>execution_service.stop_install_failed\<close> in the log.
\<close>

theorem stop_install_failure_keeps_order:
  assumes run: "handle_signal env cfg ev s = (r, s')"
    and sent: "venue_calls s' = venue_calls s @ [(ex1, entry), (ex2, stp)]"
    and accepted: "venue_create_order env (length (venue_calls s)) ex1 entry = Inr resp"
    and raised: "venue_create_order env (Suc (length (venue_calls s))) ex2 stp = Inl err"
  shows "r = None \<and> positions s' = positions s
     \<and> (\<exists>row. orders s' = orders s @ [row] \<and> status row = PENDING \<and> raw_response row = resp
            \<and> client_order_id row = clientOrderId (req_params entry))
     \<and> ex_log s' = ex_log s @ [(Error, ''execution_service.stop_install_failed'')]"
proof -
  from handle_outcomes [OF run] sent
  obtain p resp' row where o: "sig_price ev = Some p"
     "venue_create_order env (length (venue_calls s)) (the (sig_exchange ev))
                (entry_request env ev s) = Inr resp'"
     "venue_calls s' = venue_calls s @
                [(the (sig_exchange ev), entry_request env ev s),
                 (the (sig_exchange ev), stop_sent env ev s p)]"
     "orders s' = orders s @ [row]" "status row = PENDING" "raw_response row = resp'"
     "client_order_id row = clientOrderId (req_params (entry_request env ev s))"
     "r = None"
     "\<forall>err. venue_create_order env (Suc (length (venue_calls s))) (the (sig_exchange ev))
                  (stop_sent env ev s p) = Inl err \<longrightarrow>
                positions s' = positions s
                \<and> ex_log s' = ex_log s @ [(Error, ''execution_service.stop_install_failed'')]"
    by auto
  from o(3) sent have same: "ex1 = the (sig_exchange ev)" "entry = entry_request env ev s"
     "ex2 = the (sig_exchange ev)" "stp = stop_sent env ev s p" by simp_all
  with o(2) accepted have "resp' = resp" by simp
  with o same raised show ?thesis by auto
qed

theorem stop_install_failure_keeps_order_witness:
  "fst (handle_signal stop_rejecting_env live_settings buy_signal idle_exec) = None
   \<and> positions (snd (handle_signal stop_rejecting_env live_settings buy_signal idle_exec)) = []
   \<and> map (\<lambda>x. (status x, raw_response x))
         (orders (snd (handle_signal stop_rejecting_env live_settings buy_signal idle_exec)))
       = [(PENDING, [(''status'', ''open'')])]
   \<and> ex_log (snd (handle_signal stop_rejecting_env live_settings buy_signal idle_exec))
       = [(Error, ''execution_service.stop_install_failed'')]
   \<and> map (\<lambda>(ex, rq). req_type rq)
         (venue_calls (snd (handle_signal stop_rejecting_env live_settings buy_signal idle_exec)))
       = [LIMIT, STOP_MARKET]"
proof -
  let ?E = "entry_request stop_rejecting_env buy_signal idle_exec"
  let ?S = "stop_sent stop_rejecting_env buy_signal idle_exec 100"
  obtain r s' where run: "handle_signal stop_rejecting_env live_settings buy_signal idle_exec = (r, s')"
    by force
  have sent: "venue_calls s' = venue_calls idle_exec @ [(''binance'', ?E), (''binance'', ?S)]"
    using run by (auto simp: exec_eval)
  have accepted: "venue_create_order stop_rejecting_env (length (venue_calls idle_exec)) ''binance'' ?E
      = Inr [(''status'', ''open'')]"
    by (simp add: stop_rejecting_env_def idle_exec_def)
  have raised: "venue_create_order stop_rejecting_env (Suc (length (venue_calls idle_exec))) ''binance'' ?S
      = Inl ''stop orders are disabled''"
    by (simp add: stop_rejecting_env_def idle_exec_def)
  have types: "req_type ?E = LIMIT" "req_type ?S = STOP_MARKET"
    by (simp_all add: entry_request_def stop_sent_def stop_request_def)
  from stop_install_failure_keeps_order [OF run sent accepted raised] sent types run
  show ?thesis by (auto simp: idle_exec_def)
qed

text \<open>
  Claim C8: with \<open>app.dry_run = true\<close>, processing any list of approved signals makes no
  \<open>create_order\<close> call, leaves the positions table as it was (empty when it started
  empty), and adds to the orders table only rows with status \<open>new\<close>, raw response
  \<open>{"status": "dry_run"}\<close> and the entry's order type, so no stop order is recorded or
  installed. When the loop ends without an exception, exactly one such row was added for
  each signal that names a configured exchange and carries both risk fields; the only
  exception that can end the loop is the integrity error of the insert.
\<close>

theorem dry_run_isolation:
  "dry_run cfg \<Longrightarrow> run_signals env cfg evs s = (r, s') \<Longrightarrow>
   venue_calls s' = venue_calls s \<and> positions s' = positions s
   \<and> (r = None \<or> r = Some IntegrityError)
   \<and> (\<exists>new. orders s' = orders s @ new
        \<and> (\<forall>x \<in> set new. status x = NEW \<and> raw_response x = [(''status'', ''dry_run'')]
              \<and> ord_type x = LIMIT)
        \<and> (r = None \<longrightarrow>
              length new = length (filter (\<lambda>ev. known_exchange cfg ev \<and> has_risk_info ev) evs)))"
proof (induction evs arbitrary: s)
  case Nil
  then show ?case by simp
next
  case (Cons ev evs)
  obtain r1 s1 where h: "handle_signal env cfg ev s = (r1, s1)" by force
  note step = dry_run_step [OF Cons.prems(1) h]
  then obtain new1 where new1: "orders s1 = orders s @ new1"
     "\<forall>x \<in> set new1. status x = NEW \<and> raw_response x = [(''status'', ''dry_run'')] \<and> ord_type x = LIMIT"
     "r1 = None \<longrightarrow> length new1 = (if known_exchange cfg ev \<and> has_risk_info ev then 1 else 0)"
    by blast
  show ?case
  proof (cases r1)
    case (Some e)
    with h Cons.prems(2) have "r = r1" "s' = s1" by simp_all
    with step Some new1 show ?thesis by auto
  next
    case None
    with h Cons.prems(2) have rest: "run_signals env cfg evs s1 = (r, s')" by simp
    from Cons.IH [OF Cons.prems(1) rest] obtain new2 where
      fr: "venue_calls s' = venue_calls s1" "positions s' = positions s1"
        "r = None \<or> r = Some IntegrityError"
      and new2: "orders s' = orders s1 @ new2"
        "\<forall>x \<in> set new2. status x = NEW \<and> raw_response x = [(''status'', ''dry_run'')] \<and> ord_type x = LIMIT"
        "r = None \<longrightarrow> length new2 = length (filter (\<lambda>ev. known_exchange cfg ev \<and> has_risk_info ev) evs)"
      by blast
    have n1: "orders s' = orders s @ (new1 @ new2)" using new1(1) new2(1) by simp
    have n2: "\<forall>x \<in> set (new1 @ new2). status x = NEW
        \<and> raw_response x = [(''status'', ''dry_run'')] \<and> ord_type x = LIMIT"
      using new1(2) new2(2) by auto
    have n3: "r = None \<longrightarrow> length (new1 @ new2)
        = length (filter (\<lambda>ev. known_exchange cfg ev \<and> has_risk_info ev) (ev # evs))"
      using new1(3) new2(3) None by auto
    from step have a: "venue_calls s1 = venue_calls s" "positions s1 = positions s" by simp_all
    have "\<exists>new. orders s' = orders s @ new
        \<and> (\<forall>x \<in> set new. status x = NEW \<and> raw_response x = [(''status'', ''dry_run'')]
              \<and> ord_type x = LIMIT)
        \<and> (r = None \<longrightarrow>
              length new = length (filter (\<lambda>ev. known_exchange cfg ev \<and> has_risk_info ev) (ev # evs)))"
      using n1 n2 n3 by (intro exI [where x = "new1 @ new2"] conjI)
    with fr a show ?thesis by simp
  qed
qed

theorem dry_run_isolation_witness:
  "dry_run dry_settings
   \<and> fst (run_signals live_env dry_settings [buy_signal, zero_stop_signal] idle_exec) = None
   \<and> venue_calls (snd (run_signals live_env dry_settings [buy_signal, zero_stop_signal] idle_exec)) = []
   \<and> positions (snd (run_signals live_env dry_settings [buy_signal, zero_stop_signal] idle_exec)) = []
   \<and> map (\<lambda>x. (status x, raw_response x, ord_type x, ord_symbol x))
         (orders (snd (run_signals live_env dry_settings [buy_signal, zero_stop_signal] idle_exec)))
       = [(NEW, [(''status'', ''dry_run'')], LIMIT, ''BTC/USDT'')]"
proof -
  obtain r s' where run: "run_signals live_env dry_settings [buy_signal, zero_stop_signal] idle_exec = (r, s')"
    by force
  have dry: "dry_run dry_settings" by (simp add: dry_settings_def)
  have r: "r = None" and sym: "map ord_symbol (orders s') = [''BTC/USDT'']"
    using run by (auto simp: exec_eval)
  have handled: "filter (\<lambda>ev. known_exchange dry_settings ev \<and> has_risk_info ev)
      [buy_signal, zero_stop_signal] = [buy_signal]"
    by (simp add: exec_eval)
  from dry_run_isolation [OF dry run] r handled obtain new where
    fr: "venue_calls s' = venue_calls idle_exec" "positions s' = positions idle_exec"
    and new: "orders s' = orders idle_exec @ new"
      "\<forall>x \<in> set new. status x = NEW \<and> raw_response x = [(''status'', ''dry_run'')] \<and> ord_type x = LIMIT"
      "length new = 1"
    by auto
  from new(3) obtain x where x: "new = [x]" by (cases new) auto
  with new sym have "map (\<lambda>x. (status x, raw_response x, ord_type x, ord_symbol x)) (orders s')
      = [(NEW, [(''status'', ''dry_run'')], LIMIT, ''BTC/USDT'')]"
    by (simp add: idle_exec_def)
  with fr r dry run show ?thesis by (simp add: idle_exec_def)
qed

end
